theory Spec2Isabelle
  imports Complex_Main "HOL-Library.AList"
begin

section \<open>Data model\<close>

text \<open>
  The engine works on Python dictionaries produced by the web layer. A roster entry has the
  keys \<open>name\<close>, \<open>position\<close>, \<open>team\<close>, \<open>projection\<close> and \<open>is_starter\<close>.
  Python floats are idealised as real numbers (no rounding error, no NaN, no infinities, no
  negative zero), except in the section on double precision below, where the sums of
  \<open>team_strength_v3\<close> are rounded as the machine rounds them. Strings are lists of bytes,
  non-ASCII text being written as its UTF-8 bytes.

  Every reader of \<open>position\<close> and \<open>projection\<close> treats a missing key and a stored
  \<open>None\<close> alike (\<open>player.get(k) or default\<close>), so both are the value \<open>None\<close> of an
  option. For \<open>is_starter\<close> the two differ: \<open>player.get("is_starter", True)\<close> is \<open>True\<close>
  for a missing key and the falsy \<open>None\<close> for a stored \<open>None\<close>.
\<close>

datatype 'a dict_entry = Absent | PyNone | Val 'a

record player =
  name :: string
  position :: "string option"
  team :: "string option"
  projection :: "real option"
  is_starter :: "bool dict_entry"

text \<open>
  \<open>str.upper()\<close> on ASCII text: the letters a to z are mapped, every other byte is kept.
  Python also maps letters outside ASCII, so names and positions are taken to be ASCII here.
  The general theorems on the trade simulator use no property of \<open>upper\<close>.
\<close>

definition lower_letters :: string where
  "lower_letters = ''abcdefghijklmnopqrstuvwxyz''"

definition upper_letters :: string where
  "upper_letters = ''ABCDEFGHIJKLMNOPQRSTUVWXYZ''"

definition upper_char :: "char \<Rightarrow> char" where
  "upper_char c = (case map_of (zip lower_letters upper_letters) c of None \<Rightarrow> c | Some u \<Rightarrow> u)"

definition upper :: "string \<Rightarrow> string" where
  "upper s = map upper_char s"

text \<open>\<open>d.get(k, default)\<close> on a dictionary kept as an association list in insertion order.\<close>

definition dict_get :: "('k \<times> 'v) list \<Rightarrow> 'k \<Rightarrow> 'v \<Rightarrow> 'v" where
  "dict_get d k dflt = (case map_of d k of None \<Rightarrow> dflt | Some v \<Rightarrow> v)"

section \<open>services/scoring.py\<close>

definition POSITION_WEIGHTS :: "(string \<times> real) list" where
  "POSITION_WEIGHTS =
     [(''QB'', 1.00), (''RB'', 1.08), (''WR'', 1.08), (''TE'', 1.00),
      (''FLEX'', 1.00), (''K'', 0.45), (''DEF'', 0.65), (''D/ST'', 0.65)]"

definition POSITION_LIMITS :: "(string \<times> int) list" where
  "POSITION_LIMITS =
     [(''QB'', 1), (''RB'', 2), (''WR'', 2), (''TE'', 1),
      (''FLEX'', 1), (''K'', 1), (''DEF'', 1), (''D/ST'', 1)]"

record preset =
  reception_bonus :: real

definition SCORING_PRESETS :: "(string \<times> preset) list" where
  "SCORING_PRESETS =
     [(''Standard'', \<lparr>reception_bonus = 0.0\<rparr>),
      (''Half-PPR'', \<lparr>reception_bonus = 0.5\<rparr>),
      (''PPR'', \<lparr>reception_bonus = 1.0\<rparr>)]"

definition reception_estimates :: "(string \<times> real) list" where
  "reception_estimates =
     [(''QB'', 0), (''RB'', 3.5), (''WR'', 6.0), (''TE'', 4.5),
      (''FLEX'', 5.0), (''K'', 0), (''DEF'', 0), (''D/ST'', 0)]"

definition get_avg_receptions_by_position :: "string \<Rightarrow> real" where
  "get_avg_receptions_by_position pos = dict_get reception_estimates pos 0"

text \<open>\<open>float(player.get("projection", 0) or 0)\<close>\<close>

definition projection_of :: "player \<Rightarrow> real" where
  "projection_of p = (case projection p of None \<Rightarrow> 0 | Some x \<Rightarrow> x)"

text \<open>\<open>(player.get("position") or "UNK").upper()\<close>; the empty string is falsy.\<close>

definition position_of :: "player \<Rightarrow> string" where
  "position_of p =
     upper (case position p of None \<Rightarrow> ''UNK'' | Some s \<Rightarrow> if s = [] then ''UNK'' else s)"

text \<open>The truth value of \<open>player.get("is_starter", True)\<close>.\<close>

definition starter_flag :: "player \<Rightarrow> bool" where
  "starter_flag p = (case is_starter p of Absent \<Rightarrow> True | PyNone \<Rightarrow> False | Val b \<Rightarrow> b)"

text \<open>
  The default of the preset lookup is \<open>SCORING_PRESETS["PPR"]\<close>; the key is in the table,
  so that inner lookup never takes its own default.
\<close>

definition calculate_player_score :: "player \<Rightarrow> string \<Rightarrow> real" where
  "calculate_player_score p scoring_type =
     (let proj = projection_of p;
          pos = position_of p;
          weight = dict_get POSITION_WEIGHTS pos 1.0;
          base_score = proj * weight;
          pre = dict_get SCORING_PRESETS scoring_type (dict_get SCORING_PRESETS ''PPR'' \<lparr>reception_bonus = 1.0\<rparr>);
          avg_receptions = get_avg_receptions_by_position pos;
          bonus_score = avg_receptions * reception_bonus pre
      in base_score + bonus_score)"

text \<open>The loop of \<open>team_strength_v3\<close>, carrying \<open>(starter_total, bench_total)\<close>.\<close>

fun team_strength_loop :: "player list \<Rightarrow> string \<Rightarrow> real \<times> real \<Rightarrow> real \<times> real" where
  "team_strength_loop [] scoring_type (starter_total, bench_total) = (starter_total, bench_total)"
| "team_strength_loop (p # ps) scoring_type (starter_total, bench_total) =
     (let score = calculate_player_score p scoring_type in
      if starter_flag p
      then team_strength_loop ps scoring_type (starter_total + score, bench_total)
      else team_strength_loop ps scoring_type (starter_total, bench_total + score))"

definition team_strength_v3 :: "player list \<Rightarrow> string \<Rightarrow> real \<times> real" where
  "team_strength_v3 players scoring_type = team_strength_loop players scoring_type (0.0, 0.0)"

record violation =
  v_position :: string
  v_current :: int
  v_limit :: int
  v_excess :: int

record validation =
  valid :: bool
  violations :: "violation list"
  starter_counts :: "(string \<times> int) list"
  position_limits :: "(string \<times> int) list"

text \<open>First loop of \<open>validate_lineup\<close>: count the starters of each position.\<close>

fun count_starters :: "player list \<Rightarrow> (string \<times> int) list \<Rightarrow> (string \<times> int) list" where
  "count_starters [] counts = counts"
| "count_starters (p # ps) counts =
     (if starter_flag p
      then (let pos = position_of p
            in count_starters ps (AList.update pos (dict_get counts pos 0 + 1) counts))
      else count_starters ps counts)"

text \<open>Second loop of \<open>validate_lineup\<close>: one pass over the items of \<open>starter_counts\<close>.\<close>

fun check_limits :: "(string \<times> int) list \<Rightarrow> violation list" where
  "check_limits [] = []"
| "check_limits ((pos, count) # items) =
     (let lim = dict_get POSITION_LIMITS pos 1 in
      if count > lim
      then \<lparr>v_position = pos, v_current = count, v_limit = lim, v_excess = count - lim\<rparr>
             # check_limits items
      else check_limits items)"

definition validate_lineup :: "player list \<Rightarrow> validation" where
  "validate_lineup players =
     (let counts = count_starters players [];
          vs = check_limits counts
      in \<lparr>valid = (length vs = 0), violations = vs, starter_counts = counts,
          position_limits = POSITION_LIMITS\<rparr>)"

definition can_add_starter :: "player list \<Rightarrow> string \<Rightarrow> bool" where
  "can_add_starter players new_position =
     (let validation = validate_lineup players;
          current_count = dict_get (starter_counts validation) (upper new_position) 0;
          lim = dict_get POSITION_LIMITS (upper new_position) 1
      in current_count < lim)"

record pos_scores =
  starter :: real
  bench :: real

fun position_breakdown_loop ::
  "player list \<Rightarrow> string \<Rightarrow> (string \<times> pos_scores) list \<Rightarrow> (string \<times> pos_scores) list" where
  "position_breakdown_loop [] scoring_type breakdown = breakdown"
| "position_breakdown_loop (p # ps) scoring_type breakdown =
     (let pos = position_of p;
          score = calculate_player_score p scoring_type;
          breakdown1 = (if map_of breakdown pos = None
                        then breakdown @ [(pos, \<lparr>starter = 0.0, bench = 0.0\<rparr>)]
                        else breakdown);
          cur = dict_get breakdown1 pos \<lparr>starter = 0.0, bench = 0.0\<rparr>;
          breakdown2 = (if starter_flag p
                        then AList.update pos (cur\<lparr>starter := starter cur + score\<rparr>) breakdown1
                        else AList.update pos (cur\<lparr>bench := bench cur + score\<rparr>) breakdown1)
      in position_breakdown_loop ps scoring_type breakdown2)"

definition position_breakdown_v3 :: "player list \<Rightarrow> string \<Rightarrow> (string \<times> pos_scores) list" where
  "position_breakdown_v3 players scoring_type = position_breakdown_loop players scoring_type []"

definition team_strength :: "player list \<Rightarrow> string \<Rightarrow> real" where
  "team_strength players scoring = (case team_strength_v3 players scoring of (starter_total, _) \<Rightarrow> starter_total)"

fun combine_loop :: "(string \<times> pos_scores) list \<Rightarrow> (string \<times> real) list \<Rightarrow> (string \<times> real) list" where
  "combine_loop [] combined = combined"
| "combine_loop ((pos, scores) # items) combined =
     combine_loop items (AList.update pos (starter scores + bench scores) combined)"

definition position_breakdown :: "player list \<Rightarrow> (string \<times> real) list" where
  "position_breakdown players = combine_loop (position_breakdown_v3 players ''PPR'') []"

section \<open>Numbers as text\<close>

text \<open>
  \<open>round(x, 2)\<close> and the format specification \<open>.2f\<close> both round to two decimals with
  ties going to the even neighbour. The sign printed by \<open>.2f\<close> is the sign of the value
  before rounding; \<open>+.2f\<close> prints a plus sign for values that are not negative.
\<close>

definition round_half_even :: "real \<Rightarrow> int" where
  "round_half_even y =
     (let f = \<lfloor>y\<rfloor>; d = y - of_int f in
      if d < 1 / 2 then f else if 1 / 2 < d then f + 1 else if even f then f else f + 1)"

definition py_round2 :: "real \<Rightarrow> real" where
  "py_round2 x = of_int (round_half_even (x * 100)) / 100"

definition digit_char :: "nat \<Rightarrow> char" where
  "digit_char n = ''0123456789'' ! (n mod 10)"

function str_nat :: "nat \<Rightarrow> string" where
  "str_nat n = (if n < 10 then [digit_char n] else str_nat (n div 10) @ [digit_char n])"
  by pat_completeness auto
termination
  by (relation "measure (\<lambda>n. n)") auto

declare str_nat.simps [simp del]

definition fmt_abs_2f :: "real \<Rightarrow> string" where
  "fmt_abs_2f a =
     (let n = nat (round_half_even (a * 100))
      in str_nat (n div 100) @ ''.'' @ [digit_char (n div 10), digit_char n])"

definition fmt_2f :: "real \<Rightarrow> string" where
  "fmt_2f x = (if x < 0 then ''-'' else []) @ fmt_abs_2f \<bar>x\<bar>"

definition fmt_plus_2f :: "real \<Rightarrow> string" where
  "fmt_plus_2f x = (if x < 0 then ''-'' else ''+'') @ fmt_abs_2f \<bar>x\<bar>"

text \<open>The UTF-8 bytes of the capital delta, the em dash and the right arrow.\<close>

definition Delta_sign :: string where
  "Delta_sign = [CHR 0xCE, CHR 0x94]"

definition em_dash :: string where
  "em_dash = [CHR 0xE2, CHR 0x80, CHR 0x94]"

definition right_arrow :: string where
  "right_arrow = [CHR 0xE2, CHR 0x86, CHR 0x92]"

text \<open>\<open>sep.join(xs)\<close>\<close>

fun join :: "string \<Rightarrow> string list \<Rightarrow> string" where
  "join sep [] = []"
| "join sep [x] = x"
| "join sep (x # y # ys) = x @ sep @ join sep (y # ys)"

section \<open>services/scoring.py in double precision\<close>

text \<open>
  A Python float is an IEEE 754 double. Here a double is the real number it stands for, and
  \<open>x + y\<close> and \<open>x * y\<close> on doubles are the exact results rounded to the nearest double.
  Results beyond the largest double and NaN are not modelled.
\<close>

text \<open>
  The number of times a value of at least 2 is halved until it is below 2, and the number of
  times a positive value below 1 is doubled until it is at least 1.
\<close>

function halvings :: "real \<Rightarrow> nat" where
  "halvings a = (if 2 \<le> a then Suc (halvings (a / 2)) else 0)"
  by pat_completeness auto
termination
proof (relation "measure (\<lambda>a. nat \<lfloor>a\<rfloor>)")
  show "wf (measure (\<lambda>a. nat \<lfloor>a\<rfloor>))" by simp
next
  fix a :: real assume "2 \<le> a"
  then have f: "1 \<le> \<lfloor>a\<rfloor>" by linarith
  have "a < of_int \<lfloor>a\<rfloor> + 1" by linarith
  with f have "a / 2 < of_int \<lfloor>a\<rfloor>" by linarith
  then have "\<lfloor>a / 2\<rfloor> < \<lfloor>a\<rfloor>" by (simp add: floor_less_iff)
  with f have "nat \<lfloor>a / 2\<rfloor> < nat \<lfloor>a\<rfloor>" by linarith
  then show "(a / 2, a) \<in> measure (\<lambda>a. nat \<lfloor>a\<rfloor>)" by (simp only: in_measure)
qed

function doublings :: "real \<Rightarrow> nat" where
  "doublings a = (if 0 < a \<and> a < 1 then Suc (doublings (2 * a)) else 0)"
  by pat_completeness auto
termination
proof (relation "measure (\<lambda>a. nat \<lfloor>1 / a\<rfloor>)")
  show "wf (measure (\<lambda>a. nat \<lfloor>1 / a\<rfloor>))" by simp
next
  fix a :: real assume a: "0 < a \<and> a < 1"
  define b where "b = 1 / a"
  from a have "1 \<le> b" by (simp add: b_def)
  then have f: "1 \<le> \<lfloor>b\<rfloor>" by linarith
  have "b < of_int \<lfloor>b\<rfloor> + 1" by linarith
  with f have "b / 2 < of_int \<lfloor>b\<rfloor>" by linarith
  then have "\<lfloor>b / 2\<rfloor> < \<lfloor>b\<rfloor>" by (simp add: floor_less_iff)
  with f have "nat \<lfloor>b / 2\<rfloor> < nat \<lfloor>b\<rfloor>" by linarith
  moreover have "1 / (2 * a) = b / 2" by (simp add: b_def)
  ultimately have "nat \<lfloor>1 / (2 * a)\<rfloor> < nat \<lfloor>1 / a\<rfloor>" by (simp only: b_def)
  then show "(2 * a, a) \<in> measure (\<lambda>a. nat \<lfloor>1 / a\<rfloor>)" by (simp only: in_measure)
qed

declare halvings.simps [simp del]
declare doublings.simps [simp del]

text \<open>The exponent \<open>e\<close> with \<open>2 ^ e \<le> a < 2 ^ (e + 1)\<close>, for positive \<open>a\<close>.\<close>

definition binary_exponent :: "real \<Rightarrow> int" where
  "binary_exponent a = (if 1 \<le> a then int (halvings a) else - int (doublings a))"

definition pow2 :: "int \<Rightarrow> real" where
  "pow2 e = (if 0 \<le> e then 2 ^ nat e else 1 / 2 ^ nat (- e))"

text \<open>
  The double nearest to a real: 53 significant bits, ties to the even neighbour, with the
  fixed spacing \<open>2 ^ - 1074\<close> of the subnormal range.
\<close>

definition fl :: "real \<Rightarrow> real" where
  "fl x = (if x = 0 then 0
           else (let e = max (binary_exponent \<bar>x\<bar> - 52) (- 1074)
                 in of_int (round_half_even (x / pow2 e)) * pow2 e))"

definition fadd :: "real \<Rightarrow> real \<Rightarrow> real" where
  "fadd x y = fl (x + y)"

definition fmul :: "real \<Rightarrow> real \<Rightarrow> real" where
  "fmul x y = fl (x * y)"

text \<open>
  \<open>calculate_player_score\<close> and \<open>team_strength_v3\<close> once more, every literal, product and
  sum rounded to a double.
\<close>

definition calculate_player_score_f64 :: "player \<Rightarrow> string \<Rightarrow> real" where
  "calculate_player_score_f64 p scoring_type =
     (let proj = fl (projection_of p);
          pos = position_of p;
          weight = fl (dict_get POSITION_WEIGHTS pos 1.0);
          base_score = fmul proj weight;
          pre = dict_get SCORING_PRESETS scoring_type (dict_get SCORING_PRESETS ''PPR'' \<lparr>reception_bonus = 1.0\<rparr>);
          avg_receptions = fl (get_avg_receptions_by_position pos);
          bonus_score = fmul avg_receptions (fl (reception_bonus pre))
      in fadd base_score bonus_score)"

fun team_strength_loop_f64 :: "player list \<Rightarrow> string \<Rightarrow> real \<times> real \<Rightarrow> real \<times> real" where
  "team_strength_loop_f64 [] scoring_type (starter_total, bench_total) = (starter_total, bench_total)"
| "team_strength_loop_f64 (p # ps) scoring_type (starter_total, bench_total) =
     (let score = calculate_player_score_f64 p scoring_type in
      if starter_flag p
      then team_strength_loop_f64 ps scoring_type (fadd starter_total score, bench_total)
      else team_strength_loop_f64 ps scoring_type (starter_total, fadd bench_total score))"

definition team_strength_v3_f64 :: "player list \<Rightarrow> string \<Rightarrow> real \<times> real" where
  "team_strength_v3_f64 players scoring_type = team_strength_loop_f64 players scoring_type (0.0, 0.0)"

section \<open>app.py: the suggestion generator\<close>

text \<open>
  \<open>_generate_trade_suggestions\<close> returns a dictionary of seven lists and fills each list
  in a block of its own. The inner function \<open>by_position\<close> and the blocks that fill
  \<open>unfavorable_trade_recos\<close> and \<open>final_summary\<close> are embedded here, each as a function of
  the three arguments of \<open>_generate_trade_suggestions\<close>.
\<close>

record indexed_player =
  ip_name :: string
  ip_is_starter :: bool
  ip_score :: real

fun by_position_loop ::
  "player list \<Rightarrow> string \<Rightarrow> (string \<times> indexed_player list) list
     \<Rightarrow> (string \<times> indexed_player list) list" where
  "by_position_loop [] scoring_type pos_map = pos_map"
| "by_position_loop (p # ps) scoring_type pos_map =
     (let pos = position_of p;
          entry = \<lparr>ip_name = name p, ip_is_starter = starter_flag p,
                   ip_score = calculate_player_score p scoring_type\<rparr>
      in by_position_loop ps scoring_type
           (AList.update pos (dict_get pos_map pos [] @ [entry]) pos_map))"

text \<open>
  \<open>lst.sort(key=..., reverse=True)\<close> is stable: entries of equal score keep their order.
\<close>

definition by_position :: "player list \<Rightarrow> string \<Rightarrow> (string \<times> indexed_player list) list" where
  "by_position players scoring_type =
     map (\<lambda>(pos, lst). (pos, sort_key (\<lambda>x. - ip_score x) lst))
         (by_position_loop players scoring_type [])"

definition delta_total :: "player list \<Rightarrow> player list \<Rightarrow> string \<Rightarrow> real" where
  "delta_total before_players after_players scoring_type =
     (let before_starter = fst (team_strength_v3 before_players scoring_type);
          after_starter = fst (team_strength_v3 after_players scoring_type)
      in py_round2 (after_starter - before_starter))"

text \<open>The loop over \<open>after_bd.keys()\<close> that collects the positions whose starters dropped.\<close>

fun collect_drops ::
  "string list \<Rightarrow> (string \<times> pos_scores) list \<Rightarrow> (string \<times> pos_scores) list
     \<Rightarrow> (string \<times> real) list" where
  "collect_drops [] before_bd after_bd = []"
| "collect_drops (pos # keys) before_bd after_bd =
     (let d_st = py_round2 (starter (dict_get after_bd pos \<lparr>starter = 0.0, bench = 0.0\<rparr>)
                            - starter (dict_get before_bd pos \<lparr>starter = 0.0, bench = 0.0\<rparr>))
      in if d_st < 0 then (pos, d_st) # collect_drops keys before_bd after_bd
         else collect_drops keys before_bd after_bd)"

definition counter_offer_text :: string where
  "counter_offer_text =
     ''Consider counter-offering: swap a bench piece for a starter upgrade, or include a pick.''"

definition recover_text :: "string \<times> real \<Rightarrow> string" where
  "recover_text = (\<lambda>(pos, d).
     ''Recover '' @ pos @ '': target a mid-tier upgrade (aim +'' @ fmt_2f (- d) @ '').'')"

definition unfavorable_trade_recos :: "player list \<Rightarrow> player list \<Rightarrow> string \<Rightarrow> string list" where
  "unfavorable_trade_recos before_players after_players scoring_type =
     (let before_bd = position_breakdown_v3 before_players scoring_type;
          after_bd = position_breakdown_v3 after_players scoring_type
      in if delta_total before_players after_players scoring_type < 0
         then (let drops = sort_key snd (collect_drops (map fst after_bd) before_bd after_bd)
               in map recover_text (take 3 drops) @ [counter_offer_text])
         else [])"

definition final_summary :: "player list \<Rightarrow> player list \<Rightarrow> string \<Rightarrow> string list" where
  "final_summary before_players after_players scoring_type =
     (let before_starter = fst (team_strength_v3 before_players scoring_type);
          after_starter = fst (team_strength_v3 after_players scoring_type);
          d = delta_total before_players after_players scoring_type;
          decision = (if d > 0 then ''Accept'' else (if d = 0 then ''Neutral'' else ''Reject''))
      in [''Decision: '' @ decision @ '' '' @ em_dash @ '' starter '' @ Delta_sign @ '' ''
            @ fmt_plus_2f d @ '' (before '' @ fmt_2f before_starter @ '' '' @ right_arrow
            @ '' after '' @ fmt_2f after_starter @ '').''])"

section \<open>app.py: the trade simulator\<close>

text \<open>
  \<open>trade_analyze\<close> from the point where the caller's roster (\<open>my_input\<close>) and the
  counterparty roster (\<open>other_input\<close>, stored under the name \<open>other_name\<close>) have been read.
  Its effects are kept in a state: the rows of the trade report table, the flashed messages
  with their categories, and the entry \<open>last_trade_result\<close> of the session (which also
  carries the suggestion lists computed from \<open>my_input\<close> and \<open>my_post\<close>).
\<close>

record trade_report =
  other_roster :: string
  give :: "string list"
  receive :: "string list"
  before_strength :: real
  after_strength :: real
  delta :: real
  rationale :: string

record web_state =
  trade_reports :: "trade_report list"
  flashes :: "(string \<times> string) list"
  last_trade_result :: "trade_report option"

definition flash :: "web_state \<Rightarrow> string \<Rightarrow> string \<Rightarrow> web_state" where
  "flash s message category = s\<lparr>flashes := flashes s @ [(message, category)]\<rparr>"

definition remove_by_names :: "player list \<Rightarrow> string list \<Rightarrow> player list" where
  "remove_by_names items names =
     (let names_upper = set (map upper names)
      in filter (\<lambda>i. upper (name i) \<notin> names_upper) items)"

fun pick_from_pool :: "player list \<Rightarrow> string list \<Rightarrow> player list" where
  "pick_from_pool pool [] = []"
| "pick_from_pool pool (n # names) =
     (case find (\<lambda>i. upper (name i) = upper n) pool of
        None \<Rightarrow> pick_from_pool pool names
      | Some found \<Rightarrow> found # pick_from_pool pool names)"

text \<open>\<open>[n for n in names if n.upper() not in {p['name'].upper() for p in roster}]\<close>\<close>

definition missing_names :: "player list \<Rightarrow> string list \<Rightarrow> string list" where
  "missing_names roster names =
     (let names_upper = set (map (\<lambda>p. upper (name p)) roster)
      in filter (\<lambda>n. upper n \<notin> names_upper) names)"

definition my_post_of :: "player list \<Rightarrow> player list \<Rightarrow> string list \<Rightarrow> string list \<Rightarrow> player list" where
  "my_post_of my_input other_input give_names receive_names =
     remove_by_names my_input give_names @ pick_from_pool other_input receive_names"

definition roster_empty_text :: string where
  "roster_empty_text =
     ''Your roster is empty. Add players on the Dashboard before analyzing trades.''"

definition enter_names_text :: string where
  "enter_names_text =
     ''Enter player names to Give or Receive (comma-separated) to simulate a trade.''"

definition give_not_found_text :: "string list \<Rightarrow> string" where
  "give_not_found_text missing_give =
     ''These 'Give' players were not found in your roster: '' @ join '', '' missing_give @ ''.''"

definition receive_not_found_text :: "string list \<Rightarrow> string" where
  "receive_not_found_text missing_receive =
     ''These 'Receive' players were not found in the selected roster: ''
       @ join '', '' missing_receive @ ''.''"

definition detailed_text :: "real \<Rightarrow> real \<Rightarrow> real \<Rightarrow> string \<Rightarrow> string" where
  "detailed_text base_total post_total d label =
     ''Before: '' @ fmt_2f base_total @ '', After: '' @ fmt_2f post_total @ '', '' @ Delta_sign
       @ '': '' @ fmt_2f d @ '' '' @ em_dash @ '' '' @ label"

definition trade_analyze ::
  "web_state \<Rightarrow> string \<Rightarrow> player list \<Rightarrow> player list \<Rightarrow> string list \<Rightarrow> string list \<Rightarrow> string
     \<Rightarrow> web_state" where
  "trade_analyze s other_name my_input other_input give_names receive_names scoring_type =
     (if my_input = [] then flash s roster_empty_text ''warning''
      else if give_names = [] \<and> receive_names = [] then flash s enter_names_text ''warning''
      else
       (let base_total = fst (team_strength_v3 my_input scoring_type);
            missing_give = missing_names my_input give_names;
            missing_receive = missing_names other_input receive_names
        in if missing_give \<noteq> [] then flash s (give_not_found_text missing_give) ''error''
           else if missing_receive \<noteq> [] then flash s (receive_not_found_text missing_receive) ''error''
           else
            (let my_post = my_post_of my_input other_input give_names receive_names;
                 post_total = fst (team_strength_v3 my_post scoring_type);
                 d = py_round2 (post_total - base_total);
                 label = (if d > 0 then ''Accept'' else (if d = 0 then ''Neutral'' else ''Reject''));
                 detailed = detailed_text base_total post_total d label;
                 report = \<lparr>other_roster = other_name, give = give_names, receive = receive_names,
                             before_strength = base_total, after_strength = post_total,
                             delta = d, rationale = detailed\<rparr>
             in flash (s\<lparr>trade_reports := trade_reports s @ [report],
                          last_trade_result := Some report\<rparr>)
                      (''Trade analysis: '' @ detailed) ''info'')))"

section \<open>Reference definitions and example data\<close>

text \<open>
  The reception bonus of a preset key as the specification words it: Standard, Half-PPR and
  PPR give 0.0, 0.5 and 1.0, and any other key is read as PPR.
\<close>

definition preset_reception_bonus_spec :: "string \<Rightarrow> real" where
  "preset_reception_bonus_spec k =
     (if k = ''Standard'' then 0.0 else if k = ''Half-PPR'' then 0.5 else 1.0)"

text \<open>The number of starters of a roster at a normalised position.\<close>

definition starter_count_spec :: "player list \<Rightarrow> string \<Rightarrow> int" where
  "starter_count_spec players pos =
     int (length (filter (\<lambda>p. starter_flag p \<and> position_of p = pos) players))"

text \<open>
  The sign rule of the trade rationale: Accept if delta > 0, Neutral if delta == 0, Reject if
  delta < 0.
\<close>

definition rationale_spec :: "real \<Rightarrow> string" where
  "rationale_spec d =
     (if 0 < d then ''Accept'' else if d = 0 then ''Neutral'' else ''Reject'')"

text \<open>
  The final summary as the specification gives it:
  \<open>Decision: {decision} \<emdash> starter \<Delta> {delta:+.2f} (before {before:.2f} \<rightarrow> after {after:.2f})\<close>.
\<close>

definition final_summary_spec :: "string \<Rightarrow> real \<Rightarrow> real \<Rightarrow> real \<Rightarrow> string" where
  "final_summary_spec decision d before_starter after_starter =
     ''Decision: '' @ decision @ '' '' @ em_dash @ '' starter '' @ Delta_sign @ '' ''
       @ fmt_plus_2f d @ '' (before '' @ fmt_2f before_starter @ '' '' @ right_arrow
       @ '' after '' @ fmt_2f after_starter @ '')''"

text \<open>
  The roster after a trade with the tie-break of the claim on both sides: each give name
  removes the first roster entry it matches, each receive name picks the first pool entry it
  matches.
\<close>

fun remove_first_named :: "string \<Rightarrow> player list \<Rightarrow> player list" where
  "remove_first_named n [] = []"
| "remove_first_named n (p # ps) =
     (if upper (name p) = upper n then ps else p # remove_first_named n ps)"

definition post_roster_spec ::
  "player list \<Rightarrow> player list \<Rightarrow> string list \<Rightarrow> string list \<Rightarrow> player list" where
  "post_roster_spec my_roster other_pool give_names receive_names =
     fold remove_first_named give_names my_roster
       @ List.map_filter (\<lambda>n. find (\<lambda>i. upper (name i) = upper n) other_pool) receive_names"

definition empty_state :: web_state where
  "empty_state = \<lparr>trade_reports = [], flashes = [], last_trade_result = None\<rparr>"

text \<open>A roster entry with all five keys set, and one without the key \<open>is_starter\<close>.\<close>

definition mk_player :: "string \<Rightarrow> string \<Rightarrow> real \<Rightarrow> bool \<Rightarrow> player" where
  "mk_player n pos proj st =
     \<lparr>name = n, position = Some pos, team = Some ''FA'', projection = Some proj,
      is_starter = Val st\<rparr>"

definition mk_player_no_flag :: "string \<Rightarrow> string \<Rightarrow> real \<Rightarrow> player" where
  "mk_player_no_flag n pos proj =
     \<lparr>name = n, position = Some pos, team = Some ''FA'', projection = Some proj,
      is_starter = Absent\<rparr>"

section \<open>Dictionaries\<close>

lemma dict_get_Nil: "dict_get [] k d = d"
  by (simp add: dict_get_def)

lemma dict_get_unknown: "k \<notin> fst ` set d \<Longrightarrow> dict_get d k dflt = dflt"
  by (simp add: dict_get_def map_of_eq_None_iff[THEN iffD2])

lemma dict_get_update:
  "dict_get (AList.update k v al) k' d = (if k' = k then v else dict_get al k' d)"
  by (simp add: dict_get_def update_conv')

lemma dict_get_distinct:
  "distinct (map fst al) \<Longrightarrow> (k, v) \<in> set al \<Longrightarrow> dict_get al k d = v"
  by (simp add: dict_get_def)

section \<open>The player score\<close>

lemma preset_lookup:
  "reception_bonus (dict_get SCORING_PRESETS k (dict_get SCORING_PRESETS ''PPR'' d))
     = preset_reception_bonus_spec k"
  by (simp add: dict_get_def SCORING_PRESETS_def preset_reception_bonus_spec_def)

lemma weight_nonneg: "0 \<le> dict_get POSITION_WEIGHTS pos 1"
  by (simp add: dict_get_def POSITION_WEIGHTS_def)

lemma receptions_nonneg: "0 \<le> dict_get reception_estimates pos 0"
  by (simp add: dict_get_def reception_estimates_def)

lemma bonus_nonneg: "0 \<le> preset_reception_bonus_spec k"
  by (simp add: preset_reception_bonus_spec_def)

lemma score_formula:
  "calculate_player_score p st =
     projection_of p * dict_get POSITION_WEIGHTS (position_of p) 1
     + dict_get reception_estimates (position_of p) 0 * preset_reception_bonus_spec st"
  by (simp add: calculate_player_score_def Let_def preset_lookup
        get_avg_receptions_by_position_def)

text \<open>
  Claim C2. The score of a player is the projection times the weight of the normalised
  position plus the average receptions of that position times the reception bonus of the
  preset. A position outside the tables has weight 1.0 and 0 receptions, a preset key outside
  the preset table scores as PPR, and a projection that is not negative gives a score that is
  not negative, under every preset key.
\<close>

theorem calculate_player_score_correct:
  "calculate_player_score p st =
       projection_of p * dict_get POSITION_WEIGHTS (position_of p) 1.0
       + get_avg_receptions_by_position (position_of p) * preset_reception_bonus_spec st
   \<and> (position_of p \<notin> fst ` set POSITION_WEIGHTS \<longrightarrow>
        dict_get POSITION_WEIGHTS (position_of p) 1.0 = 1.0
        \<and> get_avg_receptions_by_position (position_of p) = 0)
   \<and> (st \<notin> fst ` set SCORING_PRESETS \<longrightarrow>
        calculate_player_score p st = calculate_player_score p ''PPR'')
   \<and> (0 \<le> projection_of p \<longrightarrow> 0 \<le> calculate_player_score p st)"
proof (intro conjI impI)
  show "calculate_player_score p st =
       projection_of p * dict_get POSITION_WEIGHTS (position_of p) 1.0
       + get_avg_receptions_by_position (position_of p) * preset_reception_bonus_spec st"
    by (simp add: score_formula get_avg_receptions_by_position_def)
next
  assume "position_of p \<notin> fst ` set POSITION_WEIGHTS"
  then show "dict_get POSITION_WEIGHTS (position_of p) 1.0 = 1.0"
    by (simp add: dict_get_unknown)
next
  assume unknown: "position_of p \<notin> fst ` set POSITION_WEIGHTS"
  have "fst ` set reception_estimates = fst ` set POSITION_WEIGHTS"
    by (simp add: reception_estimates_def POSITION_WEIGHTS_def)
  with unknown show "get_avg_receptions_by_position (position_of p) = 0"
    by (simp add: get_avg_receptions_by_position_def dict_get_unknown)
next
  assume "st \<notin> fst ` set SCORING_PRESETS"
  then have "preset_reception_bonus_spec st = preset_reception_bonus_spec ''PPR''"
    by (simp add: SCORING_PRESETS_def preset_reception_bonus_spec_def)
  then show "calculate_player_score p st = calculate_player_score p ''PPR''"
    by (simp add: score_formula)
next
  assume "0 \<le> projection_of p"
  then show "0 \<le> calculate_player_score p st"
    by (simp add: score_formula weight_nonneg receptions_nonneg bonus_nonneg)
qed

text \<open>
  A wide receiver projected at 10 points under an unknown preset key: the score is
  \<open>10 \<times> 1.08 + 6.0 \<times> 1.0\<close>, the PPR score. A player of the unlisted position \<open>LB\<close> scores
  the bare projection.
\<close>

theorem calculate_player_score_correct_witness:
  "''Custom'' \<notin> fst ` set SCORING_PRESETS
   \<and> 0 \<le> projection_of (mk_player ''Ann'' ''wr'' 10 True)
   \<and> calculate_player_score (mk_player ''Ann'' ''wr'' 10 True) ''Custom'' = 16.8
   \<and> calculate_player_score (mk_player ''Ann'' ''wr'' 10 True) ''PPR'' = 16.8
   \<and> position_of (mk_player ''Bo'' ''lb'' 7 True) \<notin> fst ` set POSITION_WEIGHTS
   \<and> calculate_player_score (mk_player ''Bo'' ''lb'' 7 True) ''Standard'' = 7"
proof -
  let ?ann = "mk_player ''Ann'' ''wr'' 10 True"
  let ?bo = "mk_player ''Bo'' ''lb'' 7 True"
  have k: "''Custom'' \<notin> fst ` set SCORING_PRESETS" by code_simp
  have n: "0 \<le> projection_of ?ann" by code_simp
  have ppr: "calculate_player_score ?ann ''PPR'' = 16.8" by code_simp
  have u: "position_of ?bo \<notin> fst ` set POSITION_WEIGHTS" by code_simp
  have pb: "projection_of ?bo = 7" by code_simp
  have sb: "preset_reception_bonus_spec ''Standard'' = 0" by code_simp
  from calculate_player_score_correct[of ?ann "''Custom''"] k ppr
  have a: "calculate_player_score ?ann ''Custom'' = 16.8" by simp
  from calculate_player_score_correct[of ?bo "''Standard''"] u pb sb
  have b: "calculate_player_score ?bo ''Standard'' = 7" by simp
  from k n a ppr u b show ?thesis by blast
qed

section \<open>Team strength\<close>

lemma team_strength_loop_fst:
  "fst (team_strength_loop ps st (s, b)) =
     s + sum_list (map (\<lambda>p. calculate_player_score p st) (filter starter_flag ps))"
  by (induction ps arbitrary: s b) (simp_all add: Let_def)

lemma team_strength_loop_snd:
  "snd (team_strength_loop ps st (s, b)) =
     b + sum_list (map (\<lambda>p. calculate_player_score p st) (filter (\<lambda>p. \<not> starter_flag p) ps))"
  by (induction ps arbitrary: s b) (simp_all add: Let_def)

lemma sum_list_partition:
  fixes f :: "'a \<Rightarrow> real"
  shows "sum_list (map f (filter P xs)) + sum_list (map f (filter (\<lambda>x. \<not> P x) xs))
           = sum_list (map f xs)"
  by (induction xs) simp_all

lemma starter_total_eq:
  "fst (team_strength_v3 players st) =
     sum_list (map (\<lambda>p. calculate_player_score p st) (filter starter_flag players))"
  by (simp add: team_strength_v3_def team_strength_loop_fst)

lemma team_strength_loop_f64_fst:
  "fst (team_strength_loop_f64 ps st (s, b)) =
     foldl fadd s (map (\<lambda>p. calculate_player_score_f64 p st) (filter starter_flag ps))"
  by (induction ps arbitrary: s b) (simp_all add: Let_def)

lemma team_strength_loop_f64_snd:
  "snd (team_strength_loop_f64 ps st (s, b)) =
     foldl fadd b (map (\<lambda>p. calculate_player_score_f64 p st) (filter (\<lambda>p. \<not> starter_flag p) ps))"
  by (induction ps arbitrary: s b) (simp_all add: Let_def)

text \<open>
  Claim C4, as stated: the starter total plus the bench total equals the sum of the scores of
  the whole list. In double precision it does not. Three players of the unlisted position LB
  score their projections: a starter at 0.1, a bench player at 0.1, a starter at 0.4. The
  totals are 0.5 and 0.1 and add up to 0.6, while the scores added in list order give the
  next double above 0.6, which is also the double nearest to their exact sum; nor do the two
  totals, added exactly, give the exact sum of the three scores.
\<close>

theorem team_strength_v3_partition_counterexample:
  "team_strength_v3_f64
      [mk_player ''Hal'' ''LB'' 0.1 True, mk_player ''Ida'' ''LB'' 0.1 False,
       mk_player ''Jo'' ''LB'' 0.4 True] ''PPR'' = (0.5, fl 0.1)
   \<and> map (\<lambda>p. calculate_player_score_f64 p ''PPR'')
      [mk_player ''Hal'' ''LB'' 0.1 True, mk_player ''Ida'' ''LB'' 0.1 False,
       mk_player ''Jo'' ''LB'' 0.4 True] = [fl 0.1, fl 0.1, fl 0.4]
   \<and> fadd 0.5 (fl 0.1) = fl 0.6
   \<and> foldl fadd 0 [fl 0.1, fl 0.1, fl 0.4] = fl 0.6 + 1 / 2 ^ 53
   \<and> fadd 0.5 (fl 0.1) \<noteq> foldl fadd 0 [fl 0.1, fl 0.1, fl 0.4]
   \<and> fadd 0.5 (fl 0.1) \<noteq> fl (sum_list [fl 0.1, fl 0.1, fl 0.4])
   \<and> 0.5 + fl 0.1 \<noteq> sum_list [fl 0.1, fl 0.1, fl 0.4]"
  by code_simp

text \<open>
  Claim C4, amended. The starter total is the sum of the scores of the starters and the
  bench total the sum of the scores of the bench players, each added up from 0.0 in list
  order in double precision, and the empty list gives \<open>(0.0, 0.0)\<close>. In exact arithmetic
  the starter total plus the bench total is the sum of the scores of all players of the list.
\<close>

theorem team_strength_v3_partition:
  "fst (team_strength_v3_f64 players st)
     = foldl fadd 0 (map (\<lambda>p. calculate_player_score_f64 p st) (filter starter_flag players))
   \<and> snd (team_strength_v3_f64 players st)
     = foldl fadd 0 (map (\<lambda>p. calculate_player_score_f64 p st)
         (filter (\<lambda>p. \<not> starter_flag p) players))
   \<and> team_strength_v3_f64 [] st = (0.0, 0.0)
   \<and> fst (team_strength_v3 players st) + snd (team_strength_v3 players st)
     = sum_list (map (\<lambda>p. calculate_player_score p st) players)
   \<and> team_strength_v3 [] st = (0.0, 0.0)"
  unfolding team_strength_v3_def team_strength_v3_f64_def
  by (simp add: team_strength_loop_fst team_strength_loop_snd sum_list_partition
        team_strength_loop_f64_fst team_strength_loop_f64_snd)

text \<open>
  A starting quarterback at 20, a benched running back at 5 and a starting wide receiver at
  10 under PPR: 36.8 and 8.9, in doubles and in exact arithmetic, 45.7 in all.
\<close>

theorem team_strength_v3_partition_witness:
  "team_strength_v3_f64 [mk_player ''Cy'' ''QB'' 20 True, mk_player ''Di'' ''RB'' 5 False,
       mk_player ''Eve'' ''WR'' 10 True] ''PPR'' = (fl 36.8, fl 8.9)
   \<and> team_strength_v3 [mk_player ''Cy'' ''QB'' 20 True, mk_player ''Di'' ''RB'' 5 False,
       mk_player ''Eve'' ''WR'' 10 True] ''PPR'' = (36.8, 8.9)
   \<and> sum_list (map (\<lambda>p. calculate_player_score p ''PPR'')
        [mk_player ''Cy'' ''QB'' 20 True, mk_player ''Di'' ''RB'' 5 False,
         mk_player ''Eve'' ''WR'' 10 True]) = 45.7"
proof -
  let ?ps = "[mk_player ''Cy'' ''QB'' 20 True, mk_player ''Di'' ''RB'' 5 False,
       mk_player ''Eve'' ''WR'' 10 True]"
  have s: "foldl fadd 0 (map (\<lambda>p. calculate_player_score_f64 p ''PPR'') (filter starter_flag ?ps))
             = fl 36.8" by code_simp
  have b: "foldl fadd 0 (map (\<lambda>p. calculate_player_score_f64 p ''PPR'')
             (filter (\<lambda>p. \<not> starter_flag p) ?ps)) = fl 8.9" by code_simp
  have v: "team_strength_v3 ?ps ''PPR'' = (36.8, 8.9)" by code_simp
  note r = team_strength_v3_partition[of ?ps "''PPR''"]
  from r have "fst (team_strength_v3_f64 ?ps ''PPR'') = fl 36.8"
    unfolding s by (rule conjunct1)
  moreover from r have "snd (team_strength_v3_f64 ?ps ''PPR'') = fl 8.9"
    unfolding b by (rule conjunct2[THEN conjunct1])
  ultimately have f: "team_strength_v3_f64 ?ps ''PPR'' = (fl 36.8, fl 8.9)"
    by (simp only: prod_eq_iff fst_conv snd_conv)
  from r have "fst (team_strength_v3 ?ps ''PPR'') + snd (team_strength_v3 ?ps ''PPR'')
     = sum_list (map (\<lambda>p. calculate_player_score p ''PPR'') ?ps)"
    by (rule conjunct2[THEN conjunct2, THEN conjunct2, THEN conjunct1])
  then have t: "sum_list (map (\<lambda>p. calculate_player_score p ''PPR'') ?ps) = 45.7"
    unfolding v by simp
  from f v t show ?thesis by (intro conjI)
qed

section \<open>Lineup validation\<close>

lemma count_starters_get:
  "dict_get (count_starters ps counts) pos 0 = dict_get counts pos 0 + starter_count_spec ps pos"
  by (induction ps arbitrary: counts)
     (auto simp: starter_count_spec_def dict_get_update Let_def)

lemma count_starters_keys:
  "fst ` set (count_starters ps counts)
     = fst ` set counts \<union> position_of ` {p \<in> set ps. starter_flag p}"
  by (induction ps arbitrary: counts) (auto simp: dom_update Let_def)

lemma count_starters_distinct:
  "distinct (map fst counts) \<Longrightarrow> distinct (map fst (count_starters ps counts))"
  by (induction ps arbitrary: counts) (simp_all add: distinct_update Let_def)

lemma limit_ge_1: "1 \<le> dict_get POSITION_LIMITS pos 1"
  by (simp add: dict_get_def POSITION_LIMITS_def)

lemma check_limits_set:
  "set (check_limits items) =
     {\<lparr>v_position = pos, v_current = c, v_limit = dict_get POSITION_LIMITS pos 1,
        v_excess = c - dict_get POSITION_LIMITS pos 1\<rparr> | pos c.
      (pos, c) \<in> set items \<and> dict_get POSITION_LIMITS pos 1 < c}"
  by (induction items rule: check_limits.induct) (auto simp: Let_def)

lemma check_limits_positions:
  "map v_position (check_limits items) =
     map fst (filter (\<lambda>(pos, c). dict_get POSITION_LIMITS pos 1 < c) items)"
  by (induction items rule: check_limits.induct) (simp_all add: Let_def)

lemma starter_count_pos_key:
  assumes "0 < starter_count_spec ps pos"
  shows "pos \<in> position_of ` {p \<in> set ps. starter_flag p}"
proof -
  from assms have "filter (\<lambda>p. starter_flag p \<and> position_of p = pos) ps \<noteq> []"
    by (auto simp: starter_count_spec_def)
  then obtain p where "p \<in> set ps" "starter_flag p" "position_of p = pos"
    by (auto simp: filter_empty_conv)
  then show ?thesis by auto
qed

lemma counts_entry:
  assumes "(pos, c) \<in> set (count_starters ps [])"
  shows "c = starter_count_spec ps pos"
proof -
  have "distinct (map fst (count_starters ps []))" by (simp add: count_starters_distinct)
  from this assms have "dict_get (count_starters ps []) pos 0 = c" by (rule dict_get_distinct)
  then show ?thesis by (simp add: count_starters_get dict_get_Nil)
qed

lemma counts_entry_exists:
  assumes "0 < starter_count_spec ps pos"
  shows "(pos, starter_count_spec ps pos) \<in> set (count_starters ps [])"
proof -
  from assms have "pos \<in> fst ` set (count_starters ps [])"
    by (simp add: count_starters_keys starter_count_pos_key)
  then obtain c where c: "(pos, c) \<in> set (count_starters ps [])" by auto
  then show ?thesis using counts_entry by blast
qed

text \<open>
  Claim C5. \<open>validate_lineup\<close> counts the starters of each upper-cased position. A position
  has a violation exactly when its starter count exceeds its limit, the limit of a position
  outside the limit table being 1; each violation carries the count, the limit and their
  difference, no position has two violations, and \<open>valid\<close> holds exactly when there is no
  violation.
\<close>

theorem validate_lineup_correct:
  "(\<forall>pos. (\<exists>v \<in> set (violations (validate_lineup players)). v_position v = pos)
           \<longleftrightarrow> dict_get POSITION_LIMITS pos 1 < starter_count_spec players pos)
   \<and> (\<forall>v \<in> set (violations (validate_lineup players)).
         v_current v = starter_count_spec players (v_position v)
         \<and> v_limit v = dict_get POSITION_LIMITS (v_position v) 1
         \<and> v_excess v = v_current v - v_limit v)
   \<and> distinct (map v_position (violations (validate_lineup players)))
   \<and> (\<forall>pos. pos \<notin> fst ` set POSITION_LIMITS \<longrightarrow> dict_get POSITION_LIMITS pos 1 = 1)
   \<and> (valid (validate_lineup players) \<longleftrightarrow> violations (validate_lineup players) = [])
   \<and> (\<forall>pos. dict_get (starter_counts (validate_lineup players)) pos 0
              = starter_count_spec players pos)"
proof -
  let ?r = "validate_lineup players"
  have c1: "\<forall>pos. (\<exists>v \<in> set (violations ?r). v_position v = pos)
           \<longleftrightarrow> dict_get POSITION_LIMITS pos 1 < starter_count_spec players pos"
  proof (intro allI iffI)
    fix pos
    assume "\<exists>v \<in> set (violations ?r). v_position v = pos"
    then obtain c where "(pos, c) \<in> set (count_starters players [])"
        and "dict_get POSITION_LIMITS pos 1 < c"
      by (auto simp: validate_lineup_def Let_def check_limits_set)
    then show "dict_get POSITION_LIMITS pos 1 < starter_count_spec players pos"
      using counts_entry by blast
  next
    fix pos
    assume over: "dict_get POSITION_LIMITS pos 1 < starter_count_spec players pos"
    with limit_ge_1[of pos] have "0 < starter_count_spec players pos" by linarith
    then have "(pos, starter_count_spec players pos) \<in> set (count_starters players [])"
      by (rule counts_entry_exists)
    with over show "\<exists>v \<in> set (violations ?r). v_position v = pos"
      by (force simp: validate_lineup_def Let_def check_limits_set)
  qed
  have c2: "\<forall>v \<in> set (violations ?r).
         v_current v = starter_count_spec players (v_position v)
         \<and> v_limit v = dict_get POSITION_LIMITS (v_position v) 1
         \<and> v_excess v = v_current v - v_limit v"
  proof
    fix v assume "v \<in> set (violations ?r)"
    then obtain pos c where v: "v = \<lparr>v_position = pos, v_current = c,
          v_limit = dict_get POSITION_LIMITS pos 1,
          v_excess = c - dict_get POSITION_LIMITS pos 1\<rparr>"
        and m: "(pos, c) \<in> set (count_starters players [])"
      by (auto simp: validate_lineup_def Let_def check_limits_set)
    from m have "c = starter_count_spec players pos" by (rule counts_entry)
    with v show "v_current v = starter_count_spec players (v_position v)
           \<and> v_limit v = dict_get POSITION_LIMITS (v_position v) 1
           \<and> v_excess v = v_current v - v_limit v" by simp
  qed
  have "distinct (map fst (count_starters players []))" by (simp add: count_starters_distinct)
  then have c3: "distinct (map v_position (violations ?r))"
    by (simp add: validate_lineup_def Let_def check_limits_positions distinct_map_filter)
  have c4: "\<forall>pos. pos \<notin> fst ` set POSITION_LIMITS \<longrightarrow> dict_get POSITION_LIMITS pos 1 = 1"
    by (simp add: dict_get_unknown)
  have c5: "valid ?r \<longleftrightarrow> violations ?r = []"
    by (simp add: validate_lineup_def Let_def)
  have c6: "\<forall>pos. dict_get (starter_counts ?r) pos 0 = starter_count_spec players pos"
    by (simp add: validate_lineup_def Let_def count_starters_get dict_get_Nil)
  show ?thesis by (intro conjI c1 c2 c3 c4 c5 c6)
qed

text \<open>
  Three starting running backs against the limit of 2: the lineup is not valid, and the one
  violation reads RB, 3, 2, 1.
\<close>

theorem validate_lineup_correct_witness:
  "dict_get POSITION_LIMITS ''RB'' 1 <
     starter_count_spec [mk_player ''Ed'' ''rb'' 9 True, mk_player ''Flo'' ''RB'' 8 True,
       mk_player_no_flag ''Gus'' ''Rb'' 7] ''RB''
   \<and> \<not> valid (validate_lineup [mk_player ''Ed'' ''rb'' 9 True, mk_player ''Flo'' ''RB'' 8 True,
       mk_player_no_flag ''Gus'' ''Rb'' 7])
   \<and> violations (validate_lineup [mk_player ''Ed'' ''rb'' 9 True, mk_player ''Flo'' ''RB'' 8 True,
       mk_player_no_flag ''Gus'' ''Rb'' 7])
      = [\<lparr>v_position = ''RB'', v_current = 3, v_limit = 2, v_excess = 1\<rparr>]"
proof -
  let ?ps = "[mk_player ''Ed'' ''rb'' 9 True, mk_player ''Flo'' ''RB'' 8 True,
       mk_player_no_flag ''Gus'' ''Rb'' 7]"
  have over: "dict_get POSITION_LIMITS ''RB'' 1 < starter_count_spec ?ps ''RB''" by code_simp
  have vs: "violations (validate_lineup ?ps)
      = [\<lparr>v_position = ''RB'', v_current = 3, v_limit = 2, v_excess = 1\<rparr>]" by code_simp
  from validate_lineup_correct[of ?ps] over
  have "\<exists>v \<in> set (violations (validate_lineup ?ps)). v_position v = ''RB''" by blast
  then have "violations (validate_lineup ?ps) \<noteq> []" by auto
  with validate_lineup_correct[of ?ps] have "\<not> valid (validate_lineup ?ps)" by blast
  with over vs show ?thesis by blast
qed

section \<open>Legacy functions\<close>

lemma breakdown_loop_keys:
  "fst ` set (position_breakdown_loop ps st bd) = fst ` set bd \<union> position_of ` set ps"
  by (induction ps arbitrary: bd) (auto simp: Let_def dom_update)

lemma breakdown_loop_distinct:
  "distinct (map fst bd) \<Longrightarrow> distinct (map fst (position_breakdown_loop ps st bd))"
proof (induction ps arbitrary: bd)
  case Nil
  then show ?case by simp
next
  case (Cons p ps)
  show ?case
    unfolding position_breakdown_loop.simps Let_def
    by (rule Cons.IH) (use Cons.prems in \<open>auto simp: distinct_update map_of_eq_None_iff\<close>)
qed

lemma combine_loop_map_of:
  "distinct (map fst items) \<Longrightarrow>
     map_of (combine_loop items combined) pos =
       (case map_of items pos of Some s \<Rightarrow> Some (starter s + bench s)
        | None \<Rightarrow> map_of combined pos)"
proof (induction items arbitrary: combined)
  case Nil
  then show ?case by simp
next
  case (Cons item items)
  obtain k s where item: "item = (k, s)" by (cases item)
  from Cons.prems item have d: "distinct (map fst items)" and k: "k \<notin> fst ` set items"
    by auto
  from k have "map_of items k = None" by (simp add: map_of_eq_None_iff)
  with Cons.IH[OF d] item show ?case
    by (auto simp: update_conv' split: option.splits)
qed

lemma combine_loop_keys:
  "fst ` set (combine_loop items combined) = fst ` set combined \<union> fst ` set items"
proof (induction items arbitrary: combined)
  case Nil
  show ?case by simp
next
  case (Cons item items)
  obtain k s where item: "item = (k, s)" by (cases item)
  show ?case
    unfolding item combine_loop.simps Cons.IH dom_update by auto
qed

text \<open>
  Claim C10. \<open>team_strength\<close> returns the starter component of \<open>team_strength_v3\<close> on the
  same arguments. For every position of the input, \<open>position_breakdown\<close> holds the sum of the
  starter and the bench component that \<open>position_breakdown_v3\<close> holds for that position under
  PPR, and it has no other keys.
\<close>

theorem legacy_functions:
  "team_strength players st = fst (team_strength_v3 players st)
   \<and> (\<forall>pos \<in> position_of ` set players.
        \<exists>s. map_of (position_breakdown_v3 players ''PPR'') pos = Some s
           \<and> map_of (position_breakdown players) pos = Some (starter s + bench s))
   \<and> fst ` set (position_breakdown players) = position_of ` set players"
proof -
  let ?bd = "position_breakdown_v3 players ''PPR''"
  have keys: "fst ` set ?bd = position_of ` set players"
    by (simp add: position_breakdown_v3_def breakdown_loop_keys)
  have dist: "distinct (map fst ?bd)"
    by (simp add: position_breakdown_v3_def breakdown_loop_distinct)
  have c1: "team_strength players st = fst (team_strength_v3 players st)"
    by (simp add: team_strength_def split: prod.splits)
  have c2: "\<forall>pos \<in> position_of ` set players.
        \<exists>s. map_of ?bd pos = Some s
           \<and> map_of (position_breakdown players) pos = Some (starter s + bench s)"
  proof
    fix pos assume "pos \<in> position_of ` set players"
    with keys have "pos \<in> fst ` set ?bd" by simp
    then obtain s where s: "map_of ?bd pos = Some s"
      by (metis map_of_eq_None_iff not_Some_eq)
    with dist have "map_of (position_breakdown players) pos = Some (starter s + bench s)"
      by (simp add: position_breakdown_def combine_loop_map_of)
    with s show "\<exists>s. map_of ?bd pos = Some s
           \<and> map_of (position_breakdown players) pos = Some (starter s + bench s)" by blast
  qed
  have c3: "fst ` set (position_breakdown players) = position_of ` set players"
    by (simp add: position_breakdown_def combine_loop_keys keys)
  show ?thesis by (intro conjI c1 c2 c3)
qed

text \<open>A starting and a benched running back: 13.22 and 12.14, combined 25.36.\<close>

theorem legacy_functions_witness:
  "''RB'' \<in> position_of ` set [mk_player ''Ed'' ''rb'' 9 True, mk_player ''Flo'' ''RB'' 8 False]
   \<and> map_of (position_breakdown_v3 [mk_player ''Ed'' ''rb'' 9 True, mk_player ''Flo'' ''RB'' 8 False] ''PPR'') ''RB''
        = Some \<lparr>starter = 13.22, bench = 12.14\<rparr>
   \<and> map_of (position_breakdown [mk_player ''Ed'' ''rb'' 9 True, mk_player ''Flo'' ''RB'' 8 False]) ''RB''
        = Some 25.36
   \<and> team_strength [mk_player ''Ed'' ''rb'' 9 True, mk_player ''Flo'' ''RB'' 8 False] ''PPR'' = 13.22"
proof -
  let ?ps = "[mk_player ''Ed'' ''rb'' 9 True, mk_player ''Flo'' ''RB'' 8 False]"
  have m: "''RB'' \<in> position_of ` set ?ps" by code_simp
  have v3: "map_of (position_breakdown_v3 ?ps ''PPR'') ''RB''
        = Some \<lparr>starter = 13.22, bench = 12.14\<rparr>" by code_simp
  have ts: "fst (team_strength_v3 ?ps ''PPR'') = 13.22" by code_simp
  from legacy_functions[of ?ps "''PPR''"] m
  obtain s where "map_of (position_breakdown_v3 ?ps ''PPR'') ''RB'' = Some s"
    and "map_of (position_breakdown ?ps) ''RB'' = Some (starter s + bench s)" by blast
  with v3 have "map_of (position_breakdown ?ps) ''RB'' = Some 25.36" by simp
  moreover from legacy_functions[of ?ps "''PPR''"] ts
  have "team_strength ?ps ''PPR'' = 13.22" by simp
  ultimately show ?thesis using m v3 by blast
qed

section \<open>A roster entry without the key is_starter\<close>

lemma default_flag:
  assumes "is_starter p = Absent"
  shows "starter_flag (p\<lparr>is_starter := Val True\<rparr>) = starter_flag p"
    and "position_of (p\<lparr>is_starter := Val True\<rparr>) = position_of p"
    and "calculate_player_score (p\<lparr>is_starter := Val True\<rparr>) st = calculate_player_score p st"
    and "name (p\<lparr>is_starter := Val True\<rparr>) = name p"
  using assms
  by (simp_all add: starter_flag_def position_of_def calculate_player_score_def projection_of_def)

lemma team_strength_loop_default:
  assumes "is_starter p = Absent"
  shows "team_strength_loop (xs @ p\<lparr>is_starter := Val True\<rparr> # ys) st acc
           = team_strength_loop (xs @ p # ys) st acc"
proof (induction xs arbitrary: acc)
  case Nil
  show ?case by (cases acc) (simp add: default_flag[OF assms])
next
  case (Cons x xs)
  then show ?case by (cases acc) (simp add: Let_def)
qed

lemma count_starters_default:
  assumes "is_starter p = Absent"
  shows "count_starters (xs @ p\<lparr>is_starter := Val True\<rparr> # ys) counts
           = count_starters (xs @ p # ys) counts"
  by (induction xs arbitrary: counts) (simp_all add: default_flag[OF assms] Let_def)

lemma position_breakdown_loop_default:
  assumes "is_starter p = Absent"
  shows "position_breakdown_loop (xs @ p\<lparr>is_starter := Val True\<rparr> # ys) st bd
           = position_breakdown_loop (xs @ p # ys) st bd"
  by (induction xs arbitrary: bd) (simp_all add: default_flag[OF assms] Let_def)

lemma by_position_loop_default:
  assumes "is_starter p = Absent"
  shows "by_position_loop (xs @ p\<lparr>is_starter := Val True\<rparr> # ys) st pm
           = by_position_loop (xs @ p # ys) st pm"
  by (induction xs arbitrary: pm) (simp_all add: default_flag[OF assms] Let_def)

text \<open>
  Claim C9. A player whose record has no \<open>is_starter\<close> key is a starter for every engine
  function: team strength, lineup validation, the position breakdown and the per-position
  index of the suggestion generator all return what they return when the key is set to
  \<open>True\<close>, wherever the player stands in the list.
\<close>

theorem missing_is_starter_defaults_to_true:
  assumes "is_starter p = Absent"
  shows "starter_flag p
     \<and> team_strength_v3 (xs @ p # ys) st
         = team_strength_v3 (xs @ p\<lparr>is_starter := Val True\<rparr> # ys) st
     \<and> validate_lineup (xs @ p # ys)
         = validate_lineup (xs @ p\<lparr>is_starter := Val True\<rparr> # ys)
     \<and> position_breakdown_v3 (xs @ p # ys) st
         = position_breakdown_v3 (xs @ p\<lparr>is_starter := Val True\<rparr> # ys) st
     \<and> by_position (xs @ p # ys) st
         = by_position (xs @ p\<lparr>is_starter := Val True\<rparr> # ys) st"
  using assms
  by (simp add: starter_flag_def team_strength_v3_def validate_lineup_def
        position_breakdown_v3_def by_position_def team_strength_loop_default
        count_starters_default position_breakdown_loop_default by_position_loop_default)

text \<open>
  Gus has no \<open>is_starter\<close> key; with the benched Flo he is counted as the one starting
  running back.
\<close>

theorem missing_is_starter_defaults_to_true_witness:
  "is_starter (mk_player_no_flag ''Gus'' ''Rb'' 7) = Absent
   \<and> team_strength_v3 [mk_player ''Flo'' ''RB'' 8 False, mk_player_no_flag ''Gus'' ''Rb'' 7] ''PPR''
       = (11.06, 12.14)
   \<and> starter_counts (validate_lineup [mk_player ''Flo'' ''RB'' 8 False, mk_player_no_flag ''Gus'' ''Rb'' 7])
       = [(''RB'', 1)]
   \<and> position_breakdown_v3 [mk_player ''Flo'' ''RB'' 8 False, mk_player_no_flag ''Gus'' ''Rb'' 7] ''PPR''
       = [(''RB'', \<lparr>starter = 11.06, bench = 12.14\<rparr>)]
   \<and> by_position [mk_player ''Flo'' ''RB'' 8 False, mk_player_no_flag ''Gus'' ''Rb'' 7] ''PPR''
       = [(''RB'', [\<lparr>ip_name = ''Flo'', ip_is_starter = False, ip_score = 12.14\<rparr>,
                    \<lparr>ip_name = ''Gus'', ip_is_starter = True, ip_score = 11.06\<rparr>])]"
proof -
  let ?flo = "mk_player ''Flo'' ''RB'' 8 False"
  let ?gus = "mk_player_no_flag ''Gus'' ''Rb'' 7"
  let ?qs = "[?flo, ?gus\<lparr>is_starter := Val True\<rparr>]"
  have a: "is_starter ?gus = Absent" by code_simp
  have e1: "team_strength_v3 ?qs ''PPR'' = (11.06, 12.14)" by code_simp
  have e2: "starter_counts (validate_lineup ?qs) = [(''RB'', 1)]" by code_simp
  have e3: "position_breakdown_v3 ?qs ''PPR'' = [(''RB'', \<lparr>starter = 11.06, bench = 12.14\<rparr>)]"
    by code_simp
  have e4: "by_position ?qs ''PPR''
       = [(''RB'', [\<lparr>ip_name = ''Flo'', ip_is_starter = False, ip_score = 12.14\<rparr>,
                    \<lparr>ip_name = ''Gus'', ip_is_starter = True, ip_score = 11.06\<rparr>])]"
    by code_simp
  from missing_is_starter_defaults_to_true[OF a, of "[?flo]" "[]" "''PPR''"] a e1 e2 e3 e4
  show ?thesis by simp
qed

section \<open>The trade simulator\<close>

lemma upper_name_mem:
  "(u \<notin> (\<lambda>p. upper (name p)) ` set roster) = (\<forall>p \<in> set roster. upper (name p) \<noteq> u)"
  by force

lemma missing_names_filter:
  "missing_names roster names
     = filter (\<lambda>n. \<forall>p \<in> set roster. upper (name p) \<noteq> upper n) names"
  by (simp add: missing_names_def Let_def upper_name_mem)

lemma remove_by_names_filter:
  "remove_by_names items names
     = filter (\<lambda>p. \<forall>n \<in> set names. upper (name p) \<noteq> upper n) items"
proof -
  have "\<And>u. (u \<notin> upper ` set names) = (\<forall>n \<in> set names. u \<noteq> upper n)" by force
  then show ?thesis by (simp add: remove_by_names_def Let_def)
qed

lemma trade_analyze_accepts:
  assumes "my_input \<noteq> []" and "\<not> (give_names = [] \<and> receive_names = [])"
    and "missing_names my_input give_names = []"
    and "missing_names other_input receive_names = []"
  shows "trade_analyze s other_name my_input other_input give_names receive_names st =
     (let base_total = fst (team_strength_v3 my_input st);
          post_total = fst (team_strength_v3
                         (my_post_of my_input other_input give_names receive_names) st);
          d = py_round2 (post_total - base_total);
          detailed = detailed_text base_total post_total d (rationale_spec d);
          report = \<lparr>other_roster = other_name, give = give_names, receive = receive_names,
                     before_strength = base_total, after_strength = post_total,
                     delta = d, rationale = detailed\<rparr>
      in flash (s\<lparr>trade_reports := trade_reports s @ [report], last_trade_result := Some report\<rparr>)
               (''Trade analysis: '' @ detailed) ''info'')"
  using assms by (auto simp: trade_analyze_def Let_def rationale_spec_def)

lemma detailed_text_label:
  "detailed_text b a d l = detailed_text b a d l' \<longleftrightarrow> l = l'"
  by (simp add: detailed_text_def)

lemma rationale_spec_sign:
  "(rationale_spec d = ''Accept'' \<longleftrightarrow> 0 < d)
   \<and> (rationale_spec d = ''Neutral'' \<longleftrightarrow> d = 0)
   \<and> (rationale_spec d = ''Reject'' \<longleftrightarrow> d < 0)"
  by (auto simp: rationale_spec_def)

text \<open>
  Claim C1. A trade that passes the input checks stores one report. Its before and after
  strengths are the sums of the scores of the starters of the roster before and after the
  trade (bench players do not count), its delta is the difference after minus before rounded
  to two decimals, and the rationale it carries ends in Accept exactly when the delta is
  positive, in Neutral exactly when it is zero and in Reject exactly when it is negative.
\<close>

theorem trade_delta_and_rationale:
  assumes "my_input \<noteq> []" and "\<not> (give_names = [] \<and> receive_names = [])"
    and "missing_names my_input give_names = []"
    and "missing_names other_input receive_names = []"
  shows "\<exists>r. trade_reports (trade_analyze s other_name my_input other_input
                give_names receive_names st) = trade_reports s @ [r]
     \<and> last_trade_result (trade_analyze s other_name my_input other_input
                give_names receive_names st) = Some r
     \<and> before_strength r
         = sum_list (map (\<lambda>p. calculate_player_score p st) (filter starter_flag my_input))
     \<and> after_strength r
         = sum_list (map (\<lambda>p. calculate_player_score p st)
             (filter starter_flag (my_post_of my_input other_input give_names receive_names)))
     \<and> delta r = py_round2 (after_strength r - before_strength r)
     \<and> (rationale r = detailed_text (before_strength r) (after_strength r) (delta r) ''Accept''
          \<longleftrightarrow> 0 < delta r)
     \<and> (rationale r = detailed_text (before_strength r) (after_strength r) (delta r) ''Neutral''
          \<longleftrightarrow> delta r = 0)
     \<and> (rationale r = detailed_text (before_strength r) (after_strength r) (delta r) ''Reject''
          \<longleftrightarrow> delta r < 0)"
  unfolding trade_analyze_accepts[OF assms] Let_def flash_def
  by (simp add: starter_total_eq detailed_text_label rationale_spec_sign)

text \<open>
  Ann (WR, 10) is traded for Bea (WR, 15) under PPR: before 16.80, after 22.20, delta 5.40,
  Accept.
\<close>

theorem trade_delta_and_rationale_witness:
  "[mk_player ''Ann'' ''WR'' 10 True] \<noteq> []
   \<and> \<not> ([''ann''] = [] \<and> [''BEA''] = [])
   \<and> missing_names [mk_player ''Ann'' ''WR'' 10 True] [''ann''] = []
   \<and> missing_names [mk_player ''Bea'' ''WR'' 15 True] [''BEA''] = []
   \<and> map delta (trade_reports (trade_analyze empty_state ''Rivals''
        [mk_player ''Ann'' ''WR'' 10 True] [mk_player ''Bea'' ''WR'' 15 True]
        [''ann''] [''BEA''] ''PPR'')) = [5.4]
   \<and> map rationale (trade_reports (trade_analyze empty_state ''Rivals''
        [mk_player ''Ann'' ''WR'' 10 True] [mk_player ''Bea'' ''WR'' 15 True]
        [''ann''] [''BEA''] ''PPR'')) = [detailed_text 16.8 22.2 5.4 ''Accept'']"
proof -
  let ?mine = "[mk_player ''Ann'' ''WR'' 10 True]"
  let ?pool = "[mk_player ''Bea'' ''WR'' 15 True]"
  let ?s = "trade_analyze empty_state ''Rivals'' ?mine ?pool [''ann''] [''BEA''] ''PPR''"
  have h1: "?mine \<noteq> []" by simp
  have h2: "\<not> ([''ann''] = [] \<and> [''BEA''] = [])" by simp
  have h3: "missing_names ?mine [''ann''] = []" by code_simp
  have h4: "missing_names ?pool [''BEA''] = []" by code_simp
  have b: "sum_list (map (\<lambda>p. calculate_player_score p ''PPR'') (filter starter_flag ?mine))
             = 16.8" by code_simp
  have a: "sum_list (map (\<lambda>p. calculate_player_score p ''PPR'')
             (filter starter_flag (my_post_of ?mine ?pool [''ann''] [''BEA'']))) = 22.2"
    by code_simp
  have d: "py_round2 (22.2 - 16.8) = 5.4" by code_simp
  have e: "trade_reports empty_state = []" by (simp add: empty_state_def)
  from trade_delta_and_rationale[OF h1 h2 h3 h4, of empty_state "''Rivals''" "''PPR''"]
  obtain r where r: "trade_reports ?s = trade_reports empty_state @ [r]"
    and rb: "before_strength r = 16.8" and ra: "after_strength r = 22.2"
    and rd: "delta r = py_round2 (after_strength r - before_strength r)"
    and acc: "rationale r = detailed_text (before_strength r) (after_strength r) (delta r) ''Accept''
          \<longleftrightarrow> 0 < delta r"
    unfolding a b by blast
  from rd rb ra d have d': "delta r = 5.4" by simp
  with acc rb ra have "rationale r = detailed_text 16.8 22.2 5.4 ''Accept''" by simp
  with r e d' have "map delta (trade_reports ?s) = [5.4]"
    and "map rationale (trade_reports ?s) = [detailed_text 16.8 22.2 5.4 ''Accept'']" by simp_all
  with h1 h2 h3 h4 show ?thesis by blast
qed

text \<open>
  Claim C3, as stated: whenever a give name is missing from the roster, a receive name is
  missing from the pool, or both name lists are empty, the message names exactly the missing
  names or asks for names. Two requests show otherwise. On an empty roster the check for an
  empty roster comes first: the request to give Zed is answered with the message about the
  empty roster, which does not name Zed. And when Zed is missing from the roster and Quin
  from the pool, the one message names Zed only.
\<close>

theorem trade_rejected_counterexample:
  "missing_names [] [''Zed''] = [''Zed'']
   \<and> flashes (trade_analyze empty_state ''Rivals'' [] [mk_player ''Bea'' ''WR'' 15 True]
        [''Zed''] [] ''PPR'') = [(roster_empty_text, ''warning'')]
   \<and> flashes (trade_analyze empty_state ''Rivals'' [] [mk_player ''Bea'' ''WR'' 15 True]
        [''Zed''] [] ''PPR'')
       \<noteq> flashes empty_state @ [(give_not_found_text (missing_names [] [''Zed'']), ''error'')]
   \<and> missing_names [mk_player ''Ann'' ''WR'' 10 True] [''Zed''] = [''Zed'']
   \<and> missing_names [mk_player ''Bea'' ''WR'' 15 True] [''Quin''] = [''Quin'']
   \<and> flashes (trade_analyze empty_state ''Rivals'' [mk_player ''Ann'' ''WR'' 10 True]
        [mk_player ''Bea'' ''WR'' 15 True] [''Zed''] [''Quin''] ''PPR'')
       = [(''These 'Give' players were not found in your roster: Zed.'', ''error'')]
   \<and> (receive_not_found_text [''Quin''], ''error'')
       \<notin> set (flashes (trade_analyze empty_state ''Rivals'' [mk_player ''Ann'' ''WR'' 10 True]
        [mk_player ''Bea'' ''WR'' 15 True] [''Zed''] [''Quin''] ''PPR''))"
  by code_simp

text \<open>
  Claim C3, amended. A request with a give name missing from the roster, a receive name
  missing from the pool, or both name lists empty, stores no report, leaves the last trade
  result as it was and flashes exactly one message: the message about the empty roster when
  the roster is empty; otherwise the request for names when both lists are empty; otherwise
  the give names that match no roster entry (in the order given) when there are any;
  otherwise the receive names that match no pool entry.
\<close>

theorem trade_rejected:
  assumes "missing_names my_input give_names \<noteq> [] \<or> missing_names other_input receive_names \<noteq> []
         \<or> (give_names = [] \<and> receive_names = [])"
  shows "trade_reports (trade_analyze s other_name my_input other_input give_names receive_names st)
           = trade_reports s
     \<and> last_trade_result (trade_analyze s other_name my_input other_input give_names receive_names st)
           = last_trade_result s
     \<and> flashes (trade_analyze s other_name my_input other_input give_names receive_names st)
           = flashes s @
             [if my_input = [] then (roster_empty_text, ''warning'')
              else if give_names = [] \<and> receive_names = [] then (enter_names_text, ''warning'')
              else if missing_names my_input give_names \<noteq> []
              then (give_not_found_text (missing_names my_input give_names), ''error'')
              else (receive_not_found_text (missing_names other_input receive_names), ''error'')]
     \<and> missing_names my_input give_names
           = filter (\<lambda>n. \<forall>p \<in> set my_input. upper (name p) \<noteq> upper n) give_names
     \<and> missing_names other_input receive_names
           = filter (\<lambda>n. \<forall>p \<in> set other_input. upper (name p) \<noteq> upper n) receive_names"
  using assms
  by (auto simp: trade_analyze_def Let_def flash_def missing_names_filter[symmetric])

text \<open>
  Zed and Yan are not on the roster, Ann is: the message names Zed and Yan. With every give
  name on the roster, the message names Quin, who is not in the pool.
\<close>

theorem trade_rejected_witness:
  "missing_names [mk_player ''Ann'' ''WR'' 10 True] [''Zed'', ''ann'', ''Yan''] = [''Zed'', ''Yan'']
   \<and> flashes (trade_analyze empty_state ''Rivals''
        [mk_player ''Ann'' ''WR'' 10 True] [mk_player ''Bea'' ''WR'' 15 True]
        [''Zed'', ''ann'', ''Yan''] [''BEA''] ''PPR'')
       = [(''These 'Give' players were not found in your roster: Zed, Yan.'', ''error'')]
   \<and> trade_reports (trade_analyze empty_state ''Rivals''
        [mk_player ''Ann'' ''WR'' 10 True] [mk_player ''Bea'' ''WR'' 15 True]
        [''Zed'', ''ann'', ''Yan''] [''BEA''] ''PPR'') = []
   \<and> last_trade_result (trade_analyze empty_state ''Rivals''
        [mk_player ''Ann'' ''WR'' 10 True] [mk_player ''Bea'' ''WR'' 15 True]
        [''Zed'', ''ann'', ''Yan''] [''BEA''] ''PPR'') = None
   \<and> missing_names [mk_player ''Bea'' ''WR'' 15 True] [''Quin''] = [''Quin'']
   \<and> flashes (trade_analyze empty_state ''Rivals''
        [mk_player ''Ann'' ''WR'' 10 True] [mk_player ''Bea'' ''WR'' 15 True]
        [''ann''] [''Quin''] ''PPR'')
       = [(''These 'Receive' players were not found in the selected roster: Quin.'', ''error'')]"
proof -
  let ?mine = "[mk_player ''Ann'' ''WR'' 10 True]"
  let ?pool = "[mk_player ''Bea'' ''WR'' 15 True]"
  let ?g = "[''Zed'', ''ann'', ''Yan'']"
  have ne: "?mine \<noteq> []" by simp
  have e1: "flashes empty_state = []" and e2: "trade_reports empty_state = []"
    and e3: "last_trade_result empty_state = None" by (simp_all add: empty_state_def)
  have m: "missing_names ?mine ?g = [''Zed'', ''Yan'']" by code_simp
  then have h: "missing_names ?mine ?g \<noteq> []
      \<or> missing_names ?pool [''BEA''] \<noteq> [] \<or> (?g = [] \<and> [''BEA''] = [])"
    by simp
  have t: "give_not_found_text [''Zed'', ''Yan'']
             = ''These 'Give' players were not found in your roster: Zed, Yan.''" by code_simp
  note r1 = trade_rejected[OF h, of empty_state "''Rivals''" "''PPR''"]
  from r1 have b: "trade_reports (trade_analyze empty_state ''Rivals'' ?mine ?pool ?g [''BEA''] ''PPR'')
                     = []"
    unfolding e2 by (rule conjunct1)
  from r1 have c: "last_trade_result (trade_analyze empty_state ''Rivals'' ?mine ?pool ?g [''BEA''] ''PPR'')
                     = None"
    unfolding e3 by (rule conjunct2[THEN conjunct1])
  from r1 have "flashes (trade_analyze empty_state ''Rivals'' ?mine ?pool ?g [''BEA''] ''PPR'')
       = flashes empty_state @
             [if ?mine = [] then (roster_empty_text, ''warning'')
              else if ?g = [] \<and> [''BEA''] = [] then (enter_names_text, ''warning'')
              else if missing_names ?mine ?g \<noteq> []
              then (give_not_found_text (missing_names ?mine ?g), ''error'')
              else (receive_not_found_text (missing_names ?pool [''BEA'']), ''error'')]"
    by (rule conjunct2[THEN conjunct2, THEN conjunct1])
  then have a: "flashes (trade_analyze empty_state ''Rivals'' ?mine ?pool ?g [''BEA''] ''PPR'')
             = [(''These 'Give' players were not found in your roster: Zed, Yan.'', ''error'')]"
    unfolding m t e1 by simp
  have mg: "missing_names ?mine [''ann''] = []" by code_simp
  have mr: "missing_names ?pool [''Quin''] = [''Quin'']" by code_simp
  then have h2: "missing_names ?mine [''ann''] \<noteq> []
      \<or> missing_names ?pool [''Quin''] \<noteq> [] \<or> ([''ann''] = [] \<and> [''Quin''] = [])" by simp
  have t2: "receive_not_found_text [''Quin'']
             = ''These 'Receive' players were not found in the selected roster: Quin.''" by code_simp
  from trade_rejected[OF h2, of empty_state "''Rivals''" "''PPR''"]
  have "flashes (trade_analyze empty_state ''Rivals'' ?mine ?pool [''ann''] [''Quin''] ''PPR'')
       = flashes empty_state @
             [if ?mine = [] then (roster_empty_text, ''warning'')
              else if [''ann''] = [] \<and> [''Quin''] = [] then (enter_names_text, ''warning'')
              else if missing_names ?mine [''ann''] \<noteq> []
              then (give_not_found_text (missing_names ?mine [''ann'']), ''error'')
              else (receive_not_found_text (missing_names ?pool [''Quin'']), ''error'')]"
    by (rule conjunct2[THEN conjunct2, THEN conjunct1])
  then have d: "flashes (trade_analyze empty_state ''Rivals'' ?mine ?pool [''ann''] [''Quin''] ''PPR'')
       = [(''These 'Receive' players were not found in the selected roster: Quin.'', ''error'')]"
    unfolding mg mr t2 e1 by simp
  from m a b c mr d show ?thesis by (intro conjI)
qed

lemma missing_names_Cons:
  "missing_names pool (n # names) = [] \<longleftrightarrow>
     (\<exists>i \<in> set pool. upper (name i) = upper n) \<and> missing_names pool names = []"
  by (auto simp: missing_names_filter)

lemma pick_from_pool_all:
  "missing_names pool names = [] \<Longrightarrow>
     pick_from_pool pool names
       = map (\<lambda>n. the (find (\<lambda>i. upper (name i) = upper n) pool)) names"
proof (induction names)
  case Nil
  show ?case by simp
next
  case (Cons n names)
  from Cons.prems obtain i where "i \<in> set pool" "upper (name i) = upper n"
    and rest: "missing_names pool names = []"
    by (auto simp: missing_names_Cons)
  then have "find (\<lambda>i. upper (name i) = upper n) pool \<noteq> None"
    by (auto simp: find_None_iff)
  then obtain f where "find (\<lambda>i. upper (name i) = upper n) pool = Some f" by auto
  with Cons.IH[OF rest] show ?case by simp
qed

lemma missing_names_nth:
  "missing_names pool names = [] \<Longrightarrow> k < length names \<Longrightarrow>
     \<exists>f. find (\<lambda>i. upper (name i) = upper (names ! k)) pool = Some f"
proof -
  assume a: "missing_names pool names = []" and k: "k < length names"
  from k have "names ! k \<in> set names" by simp
  with a have "\<exists>i \<in> set pool. upper (name i) = upper (names ! k)"
    by (auto simp: missing_names_filter filter_empty_conv)
  then have "find (\<lambda>i. upper (name i) = upper (names ! k)) pool \<noteq> None"
    by (auto simp: find_None_iff)
  then show ?thesis by auto
qed

text \<open>
  Claim C6, as stated: removal and selection alike take the first entry that a name matches.
  Selection does; removal drops every entry that a give name matches. Giving \<open>ann\<close> from
  a roster with Ann and ANN removes both, where the first-match rule keeps ANN.
\<close>

theorem post_roster_counterexample:
  "missing_names [mk_player ''Ann'' ''WR'' 10 True, mk_player ''Bo'' ''RB'' 10 True,
       mk_player ''ANN'' ''TE'' 4 False] [''ann''] = []
   \<and> missing_names [mk_player ''Bea'' ''WR'' 15 True] [''BEA''] = []
   \<and> my_post_of [mk_player ''Ann'' ''WR'' 10 True, mk_player ''Bo'' ''RB'' 10 True,
        mk_player ''ANN'' ''TE'' 4 False] [mk_player ''Bea'' ''WR'' 15 True] [''ann''] [''BEA'']
       = [mk_player ''Bo'' ''RB'' 10 True, mk_player ''Bea'' ''WR'' 15 True]
   \<and> post_roster_spec [mk_player ''Ann'' ''WR'' 10 True, mk_player ''Bo'' ''RB'' 10 True,
        mk_player ''ANN'' ''TE'' 4 False] [mk_player ''Bea'' ''WR'' 15 True] [''ann''] [''BEA'']
       = [mk_player ''Bo'' ''RB'' 10 True, mk_player ''ANN'' ''TE'' 4 False,
          mk_player ''Bea'' ''WR'' 15 True]
   \<and> my_post_of [mk_player ''Ann'' ''WR'' 10 True, mk_player ''Bo'' ''RB'' 10 True,
        mk_player ''ANN'' ''TE'' 4 False] [mk_player ''Bea'' ''WR'' 15 True] [''ann''] [''BEA'']
       \<noteq> post_roster_spec [mk_player ''Ann'' ''WR'' 10 True, mk_player ''Bo'' ''RB'' 10 True,
        mk_player ''ANN'' ''TE'' 4 False] [mk_player ''Bea'' ''WR'' 15 True] [''ann''] [''BEA'']"
  by code_simp

text \<open>
  Claim C6, amended. For a trade that passes the input checks, the roster after the trade is
  the caller's roster without every player whose upper-cased name is the upper-cased form of
  a give name (all matching entries, not only the first), followed by one pool entry for each
  receive name, in the order of the receive names: the first entry of the pool whose
  upper-cased name equals the upper-cased receive name.
\<close>

theorem post_roster_correct:
  assumes "my_input \<noteq> []" and "\<not> (give_names = [] \<and> receive_names = [])"
    and "missing_names my_input give_names = []"
    and "missing_names other_input receive_names = []"
  shows "my_post_of my_input other_input give_names receive_names
           = filter (\<lambda>p. \<forall>n \<in> set give_names. upper (name p) \<noteq> upper n) my_input
             @ pick_from_pool other_input receive_names
     \<and> length (pick_from_pool other_input receive_names) = length receive_names
     \<and> (\<forall>k < length receive_names. \<exists>j < length other_input.
           pick_from_pool other_input receive_names ! k = other_input ! j
           \<and> upper (name (other_input ! j)) = upper (receive_names ! k)
           \<and> (\<forall>i < j. upper (name (other_input ! i)) \<noteq> upper (receive_names ! k)))"
proof -
  have c1: "my_post_of my_input other_input give_names receive_names
           = filter (\<lambda>p. \<forall>n \<in> set give_names. upper (name p) \<noteq> upper n) my_input
             @ pick_from_pool other_input receive_names"
    by (simp add: my_post_of_def remove_by_names_filter)
  note pick = pick_from_pool_all[OF assms(4)]
  have c2: "length (pick_from_pool other_input receive_names) = length receive_names"
    by (simp add: pick)
  have c3: "\<forall>k < length receive_names. \<exists>j < length other_input.
           pick_from_pool other_input receive_names ! k = other_input ! j
           \<and> upper (name (other_input ! j)) = upper (receive_names ! k)
           \<and> (\<forall>i < j. upper (name (other_input ! i)) \<noteq> upper (receive_names ! k))"
  proof (intro allI impI)
    fix k assume k: "k < length receive_names"
    from missing_names_nth[OF assms(4) k] obtain f
      where f: "find (\<lambda>i. upper (name i) = upper (receive_names ! k)) other_input = Some f"
      by blast
    from k f have "pick_from_pool other_input receive_names ! k = f" by (simp add: pick)
    with f show "\<exists>j < length other_input.
           pick_from_pool other_input receive_names ! k = other_input ! j
           \<and> upper (name (other_input ! j)) = upper (receive_names ! k)
           \<and> (\<forall>i < j. upper (name (other_input ! i)) \<noteq> upper (receive_names ! k))"
      by (auto simp: find_Some_iff)
  qed
  show ?thesis by (intro conjI c1 c2 c3)
qed

text \<open>
  Giving \<open>ann\<close> removes both Ann and ANN; receiving \<open>BEA\<close> picks Bea, the first of the two
  matching pool entries.
\<close>

theorem post_roster_correct_witness:
  "[mk_player ''Ann'' ''WR'' 10 True, mk_player ''Bo'' ''RB'' 10 True, mk_player ''ANN'' ''TE'' 4 False] \<noteq> []
   \<and> \<not> ([''ann''] = [] \<and> [''BEA''] = [])
   \<and> missing_names [mk_player ''Ann'' ''WR'' 10 True, mk_player ''Bo'' ''RB'' 10 True, mk_player ''ANN'' ''TE'' 4 False] [''ann''] = []
   \<and> missing_names [mk_player ''Cal'' ''QB'' 18 True, mk_player ''Bea'' ''WR'' 15 True, mk_player ''bea'' ''K'' 3 False] [''BEA''] = []
   \<and> my_post_of [mk_player ''Ann'' ''WR'' 10 True, mk_player ''Bo'' ''RB'' 10 True, mk_player ''ANN'' ''TE'' 4 False]
        [mk_player ''Cal'' ''QB'' 18 True, mk_player ''Bea'' ''WR'' 15 True, mk_player ''bea'' ''K'' 3 False]
        [''ann''] [''BEA'']
       = [mk_player ''Bo'' ''RB'' 10 True, mk_player ''Bea'' ''WR'' 15 True]"
proof -
  let ?mine = "[mk_player ''Ann'' ''WR'' 10 True, mk_player ''Bo'' ''RB'' 10 True, mk_player ''ANN'' ''TE'' 4 False]"
  let ?pool = "[mk_player ''Cal'' ''QB'' 18 True, mk_player ''Bea'' ''WR'' 15 True, mk_player ''bea'' ''K'' 3 False]"
  have h1: "?mine \<noteq> []" by simp
  have h2: "\<not> ([''ann''] = [] \<and> [''BEA''] = [])" by simp
  have h3: "missing_names ?mine [''ann''] = []" by code_simp
  have h4: "missing_names ?pool [''BEA''] = []" by code_simp
  have e: "filter (\<lambda>p. \<forall>n \<in> set [''ann'']. upper (name p) \<noteq> upper n) ?mine
             @ pick_from_pool ?pool [''BEA'']
           = [mk_player ''Bo'' ''RB'' 10 True, mk_player ''Bea'' ''WR'' 15 True]" by code_simp
  from post_roster_correct[OF h1 h2 h3 h4] e
  have "my_post_of ?mine ?pool [''ann''] [''BEA'']
           = [mk_player ''Bo'' ''RB'' 10 True, mk_player ''Bea'' ''WR'' 15 True]" by simp
  with h1 h2 h3 h4 show ?thesis by blast
qed

section \<open>The suggestion generator\<close>

text \<open>
  Claim C7. The recovery suggestions are meant for the positions whose starters dropped
  most. The loop that collects the drops runs over the positions of the roster after the
  trade only. Giving away Ann, the only quarterback, for nothing lowers the starter total by
  20 and removes the position QB from the breakdown after the trade: the list holds the
  counter-offer alone and no recovery suggestion for QB.
\<close>

theorem unfavorable_recos_skip_vanished_position:
  "missing_names [mk_player ''Ann'' ''QB'' 20 True, mk_player ''Bo'' ''RB'' 10 True] [''ann''] = []
   \<and> my_post_of [mk_player ''Ann'' ''QB'' 20 True, mk_player ''Bo'' ''RB'' 10 True]
        [mk_player ''Bea'' ''WR'' 15 True] [''ann''] [] = [mk_player ''Bo'' ''RB'' 10 True]
   \<and> delta_total [mk_player ''Ann'' ''QB'' 20 True, mk_player ''Bo'' ''RB'' 10 True]
        [mk_player ''Bo'' ''RB'' 10 True] ''PPR'' = - 20
   \<and> starter (dict_get (position_breakdown_v3
        [mk_player ''Ann'' ''QB'' 20 True, mk_player ''Bo'' ''RB'' 10 True] ''PPR'') ''QB''
        \<lparr>starter = 0, bench = 0\<rparr>) = 20
   \<and> map_of (position_breakdown_v3 [mk_player ''Bo'' ''RB'' 10 True] ''PPR'') ''QB'' = None
   \<and> unfavorable_trade_recos [mk_player ''Ann'' ''QB'' 20 True, mk_player ''Bo'' ''RB'' 10 True]
        [mk_player ''Bo'' ''RB'' 10 True] ''PPR'' = [counter_offer_text]"
  by code_simp

text \<open>
  Claim C8, as stated: the one string of \<open>final_summary\<close> is the text that ends with the
  closing parenthesis. The code adds a full stop; on two empty rosters the strings differ.
\<close>

theorem final_summary_counterexample:
  "final_summary [] [] ''PPR'' \<noteq>
     [final_summary_spec (rationale_spec (delta_total [] [] ''PPR'')) (delta_total [] [] ''PPR'')
        (fst (team_strength_v3 [] ''PPR'')) (fst (team_strength_v3 [] ''PPR''))]"
  by code_simp

text \<open>
  Claim C8, amended. \<open>final_summary\<close> holds exactly one string: the text of the
  specification followed by a full stop, with the decision given by the sign rule of the
  trade rationale applied to the starter delta rounded to two decimals.
\<close>

theorem final_summary_correct:
  "final_summary before_players after_players st =
     [final_summary_spec
        (rationale_spec (delta_total before_players after_players st))
        (delta_total before_players after_players st)
        (fst (team_strength_v3 before_players st))
        (fst (team_strength_v3 after_players st)) @ ''.'']
   \<and> delta_total before_players after_players st
        = py_round2 (fst (team_strength_v3 after_players st)
                     - fst (team_strength_v3 before_players st))"
  by (simp add: final_summary_def final_summary_spec_def rationale_spec_def delta_total_def Let_def)

text \<open>Giving away the quarterback of the example above: Reject, -20.00, 34.30, 14.30.\<close>

theorem final_summary_correct_witness:
  "final_summary [mk_player ''Ann'' ''QB'' 20 True, mk_player ''Bo'' ''RB'' 10 True]
                 [mk_player ''Bo'' ''RB'' 10 True] ''PPR''
     = [''Decision: Reject '' @ em_dash @ '' starter '' @ Delta_sign @ '' -20.00 (before 34.30 ''
          @ right_arrow @ '' after 14.30).'']"
proof -
  let ?b = "[mk_player ''Ann'' ''QB'' 20 True, mk_player ''Bo'' ''RB'' 10 True]"
  let ?a = "[mk_player ''Bo'' ''RB'' 10 True]"
  have e: "final_summary_spec (rationale_spec (delta_total ?b ?a ''PPR'')) (delta_total ?b ?a ''PPR'')
        (fst (team_strength_v3 ?b ''PPR'')) (fst (team_strength_v3 ?a ''PPR'')) @ ''.''
     = ''Decision: Reject '' @ em_dash @ '' starter '' @ Delta_sign @ '' -20.00 (before 34.30 ''
          @ right_arrow @ '' after 14.30).''" by code_simp
  from final_summary_correct[of ?b ?a "''PPR''"] e show ?thesis by simp
qed

end
